theory Spec2Isabelle
  imports Complex_Main
begin

section \<open>Input validation of giotto/utils/validation.py\<close>

text \<open>
  The module has four functions: \<open>check_diagram\<close> and \<open>check_graph\<close> inspect a numpy
  array, \<open>validate_params\<close> and \<open>validate_metric_params\<close> inspect dictionaries of Python
  values. Every \<open>raise\<close> of the source, and every exception an operation of the source can
  throw on the values modelled here, is a value \<open>Inl e\<close> of the result.
\<close>

subsection \<open>Exceptions\<close>

text \<open>
  An exception is its class together with the fixed part of its message (the \<open>{}\<close> of a
  format string are kept as they are written, the formatted arguments are dropped).
\<close>

datatype error =
    ValueError string
  | TypeError string
  | KeyError string
  | IndexError string
  | OverflowError string

fun is_ValueError :: "error + 'a \<Rightarrow> bool" where
  "is_ValueError (Inl (ValueError m)) = True"
| "is_ValueError r = False"

fun is_KeyError :: "error + 'a \<Rightarrow> bool" where
  "is_KeyError (Inl (KeyError m)) = True"
| "is_KeyError r = False"

fun raises :: "error + 'a \<Rightarrow> bool" where
  "raises (Inl e) = True"
| "raises (Inr v) = False"

definition ebind :: "error + 'a \<Rightarrow> ('a \<Rightarrow> error + 'b) \<Rightarrow> error + 'b" where
  "ebind m f = (case m of Inl e \<Rightarrow> Inl e | Inr v \<Rightarrow> f v)"

subsection \<open>Floating-point values\<close>

text \<open>
  A float is a real number, one of the two infinities, or NaN. Comparisons of floats (and of
  Python integers with floats) are exact, so they are the comparisons of the reals; every
  comparison with NaN but \<open>!=\<close> is false. Floating-point arithmetic is not modelled: the
  two operations of numpy that compute with floats, \<open>np.sum\<close> of an array of numbers and the
  test of \<open>np.allclose\<close>, are parameters of \<open>check_graph\<close>.
\<close>

datatype npfloat = Fin real | PInf | NInf | NaN

fun flt :: "npfloat \<Rightarrow> npfloat \<Rightarrow> bool" where
  "flt NaN y = False"
| "flt x NaN = False"
| "flt (Fin a) (Fin b) = (a < b)"
| "flt (Fin a) PInf = True"
| "flt (Fin a) NInf = False"
| "flt PInf y = False"
| "flt NInf NInf = False"
| "flt NInf y = True"

fun feq :: "npfloat \<Rightarrow> npfloat \<Rightarrow> bool" where
  "feq (Fin a) (Fin b) = (a = b)"
| "feq PInf PInf = True"
| "feq NInf NInf = True"
| "feq x y = False"

definition fle :: "npfloat \<Rightarrow> npfloat \<Rightarrow> bool" where
  "fle x y = (flt x y \<or> feq x y)"

definition fge :: "npfloat \<Rightarrow> npfloat \<Rightarrow> bool" where
  "fge x y = fle y x"

definition fne :: "npfloat \<Rightarrow> npfloat \<Rightarrow> bool" where
  "fne x y = (\<not> feq x y)"

fun fabs :: "npfloat \<Rightarrow> npfloat" where
  "fabs (Fin a) = Fin \<bar>a\<bar>"
| "fabs PInf = PInf"
| "fabs NInf = PInf"
| "fabs NaN = NaN"

text \<open>\<open>int(x)\<close> of a float truncates towards zero, and raises on an infinity or NaN.\<close>

fun py_int :: "npfloat \<Rightarrow> error + int" where
  "py_int (Fin a) = Inr (if 0 \<le> a then \<lfloor>a\<rfloor> else \<lceil>a\<rceil>)"
| "py_int PInf = Inl (OverflowError ''cannot convert float infinity to integer'')"
| "py_int NInf = Inl (OverflowError ''cannot convert float infinity to integer'')"
| "py_int NaN = Inl (ValueError ''cannot convert float NaN to integer'')"

subsection \<open>Arrays\<close>

text \<open>
  A numpy array is its shape and its entries in row-major order; \<open>valid_array\<close> says that
  there are as many entries as the shape asks for. \<open>at3 X i j k\<close> is \<open>X[i, j, k]\<close> of a
  3-dimensional array.
\<close>

record ndarray =
  shape :: "nat list"
  data :: "npfloat list"

definition valid_array :: "ndarray \<Rightarrow> bool" where
  "valid_array X = (length (data X) = prod_list (shape X))"

definition at3 :: "ndarray \<Rightarrow> nat \<Rightarrow> nat \<Rightarrow> nat \<Rightarrow> npfloat" where
  "at3 X i j k = data X ! ((i * (shape X ! 1) + j) * (shape X ! 2) + k)"

text \<open>The index pairs and triples of an array, in row-major order.\<close>

definition indices2 :: "nat \<Rightarrow> nat \<Rightarrow> (nat \<times> nat) list" where
  "indices2 n m = List.product [0..<n] [0..<m]"

definition indices3 :: "nat \<Rightarrow> nat \<Rightarrow> nat \<Rightarrow> (nat \<times> nat \<times> nat) list" where
  "indices3 n m l = List.product [0..<n] (List.product [0..<m] [0..<l])"

text \<open>\<open>np.sum\<close> of an array of booleans: the number of \<open>True\<close>.\<close>

definition np_count :: "bool list \<Rightarrow> nat" where
  "np_count bs = length (filter (\<lambda>b. b) bs)"

subsection \<open>check_diagram\<close>

text \<open>
  \<open>X[0, :, 2]\<close>: the third column of the first sample. It is evaluated once the shape is
  known to be \<open>(n, m, 3)\<close>, and raises when there is no first sample.
\<close>

definition first_sample_dims :: "ndarray \<Rightarrow> error + npfloat list" where
  "first_sample_dims X =
     (if shape X ! 0 = 0
      then Inl (IndexError ''index 0 is out of bounds for axis 0 with size 0'')
      else Inr (map (\<lambda>j. at3 X 0 j 2) [0..<shape X ! 1]))"

text \<open>
  \<open>sorted(list(set(xs)))\<close>: \<open>set\<close> keeps one of the entries that are equal (a NaN is equal
  to nothing, so every NaN stays), \<open>sorted\<close> orders them with \<open><\<close>. When no entry is NaN
  the result is the ascending list of the distinct entries, whatever order the set is
  iterated in; with a NaN Python fixes no order, and the one taken here is the insertion
  order.
\<close>

fun py_set :: "npfloat list \<Rightarrow> npfloat list" where
  "py_set [] = []"
| "py_set (x # xs) = x # filter (\<lambda>y. \<not> feq y x) (py_set xs)"

fun py_insort :: "npfloat \<Rightarrow> npfloat list \<Rightarrow> npfloat list" where
  "py_insort x [] = [x]"
| "py_insort x (y # ys) = (if flt x y then x # y # ys else y # py_insort x ys)"

definition py_sorted :: "npfloat list \<Rightarrow> npfloat list" where
  "py_sorted xs = foldl (\<lambda>acc x. py_insort x acc) [] xs"

text \<open>
  The loop \<open>for dim in homology_dimensions\<close> (\<open>hdim\<close> below); the first argument is the
  whole list, whose length the loop body reads.
\<close>

fun check_dims :: "npfloat list \<Rightarrow> npfloat list \<Rightarrow> error + unit" where
  "check_dims homology_dimensions [] = Inr ()"
| "check_dims homology_dimensions (hdim # rest) =
     (if feq hdim PInf then
        (if length homology_dimensions \<noteq> 1
         then Inl (ValueError ''np.inf is a valid homology dimension for a stacked diagram but it should be the only one'')
         else check_dims homology_dimensions rest)
      else
        (case py_int hdim of
           Inl e \<Rightarrow> Inl e
         | Inr n \<Rightarrow>
             if fne hdim (Fin (of_int n))
             then Inl (ValueError ''All homology dimensions should be integer valued'')
             else if fne hdim (fabs hdim)
             then Inl (ValueError ''All homology dimensions should be integer valued'')
             else check_dims homology_dimensions rest))"

definition n_points_above_diag :: "ndarray \<Rightarrow> nat" where
  "n_points_above_diag X =
     np_count (map (\<lambda>(i, j). fge (at3 X i j 1) (at3 X i j 0))
                   (indices2 (shape X ! 0) (shape X ! 1)))"

definition n_points_global :: "ndarray \<Rightarrow> nat" where
  "n_points_global X = shape X ! 0 * shape X ! 1"

definition check_diagram :: "ndarray \<Rightarrow> error + ndarray" where
  "check_diagram X =
     (if length (shape X) \<noteq> 3
      then Inl (ValueError ''X should be a 3d np.array'')
      else if shape X ! 2 \<noteq> 3
      then Inl (ValueError ''X should be a 3d np.array with a 3rd dimension of 3 components'')
      else
        ebind (first_sample_dims X) (\<lambda>column.
        let homology_dimensions = py_sorted (py_set column) in
        ebind (check_dims homology_dimensions homology_dimensions) (\<lambda>u.
        if n_points_above_diag X \<noteq> n_points_global X
        then Inl (ValueError ''All points of all n_samples persistent diagrams should be above the diagonal'')
        else Inr X)))"

subsection \<open>check_graph\<close>

text \<open>
  \<open>np.diagonal(X, axis1=1, axis2=2)\<close> holds \<open>X[i, k, k]\<close>;
  \<open>np.transpose(X, (0, 2, 1))\<close> holds \<open>X[i, k, j]\<close> at \<open>[i, j, k]\<close>.
  \<open>np.allclose(A, B)\<close> holds when the test \<open>isclose a b\<close> of numpy (with its default
  tolerances) holds of every entry \<open>a\<close> of \<open>A\<close> and the entry \<open>b\<close> of \<open>B\<close> at the same index.
  That test, and \<open>np.sum\<close> of a list of numbers, are the parameters \<open>isclose\<close> and \<open>np_sum\<close>:
  what numpy computes there depends on the rounding of its floating-point operations and on
  the order of its additions, and every theorem about \<open>check_graph\<close> holds whatever they are.
\<close>

definition diagonal :: "ndarray \<Rightarrow> npfloat list" where
  "diagonal X =
     map (\<lambda>(i, k). at3 X i k k) (indices2 (shape X ! 0) (min (shape X ! 1) (shape X ! 2)))"

definition transpose_021 :: "ndarray \<Rightarrow> ndarray" where
  "transpose_021 X =
     \<lparr> shape = [shape X ! 0, shape X ! 2, shape X ! 1],
       data = map (\<lambda>(i, j, k). at3 X i k j) (indices3 (shape X ! 0) (shape X ! 2) (shape X ! 1)) \<rparr>"

definition allclose :: "(npfloat \<Rightarrow> npfloat \<Rightarrow> bool) \<Rightarrow> ndarray \<Rightarrow> ndarray \<Rightarrow> bool" where
  "allclose isclose A B =
     list_all (\<lambda>(i, j, k). isclose (at3 A i j k) (at3 B i j k))
              (indices3 (shape A ! 0) (shape A ! 1) (shape A ! 2))"

definition n_negative :: "ndarray \<Rightarrow> nat" where
  "n_negative X =
     np_count (map (\<lambda>(i, j, k). flt (at3 X i j k) (Fin 0))
                   (indices3 (shape X ! 0) (shape X ! 1) (shape X ! 2)))"

definition check_graph ::
  "(npfloat list \<Rightarrow> npfloat) \<Rightarrow> (npfloat \<Rightarrow> npfloat \<Rightarrow> bool) \<Rightarrow> ndarray \<Rightarrow> error + ndarray" where
  "check_graph np_sum isclose X =
     (if length (shape X) \<noteq> 3
      then Inl (ValueError ''Graph structure dimension error'')
      else if shape X ! 1 \<noteq> shape X ! 2
      then Inl (TypeError ''Matrix is not square'')
      else if fne (np_sum (diagonal X)) (Fin 0)
      then Inl (ValueError ''At least one matrix diagonal element is not 0'')
      else if \<not> allclose isclose X (transpose_021 X)
      then Inl (ValueError ''Matrix is not symmetric'')
      else if n_negative X > 0
      then Inl (ValueError ''At least one matrix element is smaller than 0'')
      else Inr X)"

subsection \<open>Python values\<close>

text \<open>
  The values a parameter or a declaration is built from: \<open>None\<close>, booleans, integers, floats,
  strings, lists, tuples, and the type objects \<open>bool\<close>, \<open>int\<close>, \<open>float\<close>, \<open>str\<close>, \<open>list\<close>,
  \<open>tuple\<close>, \<open>type\<close>, \<open>NoneType\<close> and \<open>numbers.Number\<close>. Complex numbers, dictionaries as
  values and user classes are outside the model.
\<close>

datatype pytype = TNoneType | TBool | TInt | TFloat | TNumber | TStr | TList | TTuple | TType

datatype pyval =
    VNone
  | VBool bool
  | VInt int
  | VFloat npfloat
  | VStr string
  | VList "pyval list"
  | VTuple "pyval list"
  | VType pytype

text \<open>
  \<open>isinstance(v, t)\<close> for a type object \<open>t\<close>: \<open>bool\<close> is a subclass of \<open>int\<close>, and \<open>bool\<close>,
  \<open>int\<close> and \<open>float\<close> are instances of \<open>numbers.Number\<close>. The second argument of
  \<open>isinstance\<close> may also be a tuple of such arguments, tried from left to right; anything
  else is a TypeError.
\<close>

fun type_of :: "pyval \<Rightarrow> pytype" where
  "type_of VNone = TNoneType"
| "type_of (VBool b) = TBool"
| "type_of (VInt i) = TInt"
| "type_of (VFloat x) = TFloat"
| "type_of (VStr s) = TStr"
| "type_of (VList xs) = TList"
| "type_of (VTuple xs) = TTuple"
| "type_of (VType t) = TType"

definition issubclass :: "pytype \<Rightarrow> pytype \<Rightarrow> bool" where
  "issubclass s t =
     (s = t \<or> (s = TBool \<and> t = TInt) \<or> ((s = TBool \<or> s = TInt \<or> s = TFloat) \<and> t = TNumber))"

definition isinstance_of :: "pyval \<Rightarrow> pytype \<Rightarrow> bool" where
  "isinstance_of v t = issubclass (type_of v) t"

fun py_isinstance :: "pyval \<Rightarrow> pyval \<Rightarrow> error + bool"
  and py_isinstance_any :: "pyval \<Rightarrow> pyval list \<Rightarrow> error + bool" where
  "py_isinstance v (VType t) = Inr (isinstance_of v t)"
| "py_isinstance v (VTuple cs) = py_isinstance_any v cs"
| "py_isinstance v c = Inl (TypeError ''isinstance() arg 2 must be a type, a tuple of types, or a union'')"
| "py_isinstance_any v [] = Inr False"
| "py_isinstance_any v (c # cs) =
     (case py_isinstance v c of
        Inl e \<Rightarrow> Inl e
      | Inr b \<Rightarrow> if b then Inr True else py_isinstance_any v cs)"

text \<open>
  Comparisons. Booleans, integers and floats compare by value (\<open>True\<close> is 1), strings and
  sequences lexicographically; \<open>==\<close> never raises, \<open><\<close> and \<open>>\<close> raise TypeError on
  operands that have no order. Object identity is not modelled, so \<open>x in xs\<close> is decided by
  \<open>==\<close> alone.
\<close>

fun num_of :: "pyval \<Rightarrow> npfloat option" where
  "num_of (VBool b) = Some (Fin (if b then 1 else 0))"
| "num_of (VInt i) = Some (Fin (of_int i))"
| "num_of (VFloat x) = Some x"
| "num_of v = None"

fun str_lt :: "string \<Rightarrow> string \<Rightarrow> bool" where
  "str_lt [] [] = False"
| "str_lt [] (d # t) = True"
| "str_lt (c # s) [] = False"
| "str_lt (c # s) (d # t) = (if c = d then str_lt s t else (of_char c :: nat) < of_char d)"

fun py_eq :: "pyval \<Rightarrow> pyval \<Rightarrow> bool"
  and py_eq_seq :: "pyval list \<Rightarrow> pyval list \<Rightarrow> bool" where
  "py_eq (VList xs) (VList ys) = py_eq_seq xs ys"
| "py_eq (VTuple xs) (VTuple ys) = py_eq_seq xs ys"
| "py_eq (VStr s) (VStr t) = (s = t)"
| "py_eq (VType s) (VType t) = (s = t)"
| "py_eq VNone VNone = True"
| "py_eq a b = (case (num_of a, num_of b) of (Some x, Some y) \<Rightarrow> feq x y | _ \<Rightarrow> False)"
| "py_eq_seq [] [] = True"
| "py_eq_seq (x # xs) (y # ys) = (py_eq x y \<and> py_eq_seq xs ys)"
| "py_eq_seq xs ys = False"

fun py_lt :: "pyval \<Rightarrow> pyval \<Rightarrow> error + bool"
  and py_lt_seq :: "pyval list \<Rightarrow> pyval list \<Rightarrow> error + bool" where
  "py_lt (VList xs) (VList ys) = py_lt_seq xs ys"
| "py_lt (VTuple xs) (VTuple ys) = py_lt_seq xs ys"
| "py_lt (VStr s) (VStr t) = Inr (str_lt s t)"
| "py_lt a b =
     (case (num_of a, num_of b) of
        (Some x, Some y) \<Rightarrow> Inr (flt x y)
      | _ \<Rightarrow> Inl (TypeError ''< not supported between instances of {} and {}''))"
| "py_lt_seq [] [] = Inr False"
| "py_lt_seq [] (y # ys) = Inr True"
| "py_lt_seq (x # xs) [] = Inr False"
| "py_lt_seq (x # xs) (y # ys) = (if py_eq x y then py_lt_seq xs ys else py_lt x y)"

definition py_gt :: "pyval \<Rightarrow> pyval \<Rightarrow> error + bool" where
  "py_gt a b =
     (case py_lt b a of
        Inl e \<Rightarrow> Inl (TypeError ''> not supported between instances of {} and {}'')
      | Inr r \<Rightarrow> Inr r)"

text \<open>
  \<open>v[i]\<close> for the literal indices 0 and 1 of the source, \<open>v[i][j]...\<close> from left to right,
  \<open>len(v)\<close> and the items \<open>for x in v\<close> runs over. A type object has no items here.
\<close>

fun py_getitem :: "pyval \<Rightarrow> nat \<Rightarrow> error + pyval" where
  "py_getitem (VList xs) i =
     (if i < length xs then Inr (xs ! i) else Inl (IndexError ''list index out of range''))"
| "py_getitem (VTuple xs) i =
     (if i < length xs then Inr (xs ! i) else Inl (IndexError ''tuple index out of range''))"
| "py_getitem (VStr s) i =
     (if i < length s then Inr (VStr [s ! i]) else Inl (IndexError ''string index out of range''))"
| "py_getitem v i = Inl (TypeError ''object is not subscriptable'')"

fun subscripts :: "pyval \<Rightarrow> nat list \<Rightarrow> error + pyval" where
  "subscripts v [] = Inr v"
| "subscripts v (i # is) = ebind (py_getitem v i) (\<lambda>w. subscripts w is)"

fun py_len :: "pyval \<Rightarrow> error + nat" where
  "py_len (VList xs) = Inr (length xs)"
| "py_len (VTuple xs) = Inr (length xs)"
| "py_len (VStr s) = Inr (length s)"
| "py_len v = Inl (TypeError ''object has no len()'')"

fun py_iter :: "pyval \<Rightarrow> error + pyval list" where
  "py_iter (VList xs) = Inr xs"
| "py_iter (VTuple xs) = Inr xs"
| "py_iter (VStr s) = Inr (map (\<lambda>c. VStr [c]) s)"
| "py_iter v = Inl (TypeError ''object is not iterable'')"

definition py_in_list :: "pyval \<Rightarrow> pyval list \<Rightarrow> bool" where
  "py_in_list v xs = list_ex (\<lambda>x. py_eq x v) xs"

text \<open>
  A dictionary keyed by strings is the list of its items in insertion order, with distinct
  keys (\<open>valid_dict\<close>); \<open>d[k]\<close> raises KeyError on a missing key.
\<close>

type_synonym pydict = "(string \<times> pyval) list"

definition py_lookup :: "pydict \<Rightarrow> string \<Rightarrow> error + pyval" where
  "py_lookup d k = (case map_of d k of None \<Rightarrow> Inl (KeyError k) | Some v \<Rightarrow> Inr v)"

definition dict_keys :: "pydict \<Rightarrow> string list" where
  "dict_keys d = map fst d"

definition valid_dict :: "pydict \<Rightarrow> bool" where
  "valid_dict d = distinct (map fst d)"

subsection \<open>validate_params\<close>

text \<open>
  One run of the body of \<open>for key in references.keys()\<close> raises, goes on to the next key
  (\<open>Continue\<close>: the end of the body or its \<open>continue\<close>), or leaves the loop (\<open>Break\<close>).
  \<open>check_element\<close> is the body of the inner loop over the items of a list parameter,
  \<open>check_range\<close> and \<open>check_one_of\<close> are the two tests of a scalar parameter. In
  \<open>a < lo or a > hi\<close> the second comparison, and the subscripts of its operand, are evaluated
  only when the first is false.
\<close>

datatype flow = Continue | Break

definition check_element :: "pyval \<Rightarrow> pyval \<Rightarrow> error + unit" where
  "check_element decl parameter =
     ebind (subscripts decl [1, 0]) (\<lambda>t.
     ebind (py_isinstance parameter t) (\<lambda>ok.
     if \<not> ok
     then Inl (TypeError ''Parameter {} is a list of {} but contains an element of type {}'')
     else
       ebind (subscripts decl [1]) (\<lambda>r1.
       if isinstance_of r1 TTuple then
         ebind (subscripts decl [1, 1, 0]) (\<lambda>lo.
         ebind (py_lt parameter lo) (\<lambda>below.
         if below
         then Inl (ValueError ''Parameter {} is a list containing {}which should be in the range ({},{})'')
         else
           ebind (subscripts decl [1, 1, 1]) (\<lambda>hi.
           ebind (py_gt parameter hi) (\<lambda>above.
           if above
           then Inl (ValueError ''Parameter {} is a list containing {}which should be in the range ({},{})'')
           else Inr ()))))
       else Inr ())))"

fun check_elements :: "pyval \<Rightarrow> pyval list \<Rightarrow> error + unit" where
  "check_elements decl [] = Inr ()"
| "check_elements decl (parameter # rest) =
     (case check_element decl parameter of
        Inl e \<Rightarrow> Inl e
      | Inr u \<Rightarrow> check_elements decl rest)"

definition check_range :: "pyval \<Rightarrow> pyval \<Rightarrow> error + unit" where
  "check_range decl v =
     ebind (subscripts decl [1, 0]) (\<lambda>lo.
     ebind (py_lt v lo) (\<lambda>below.
     if below
     then Inl (ValueError ''Parameter {} is {}, while it should be in the range ({},{})'')
     else
       ebind (subscripts decl [1, 1]) (\<lambda>hi.
       ebind (py_gt v hi) (\<lambda>above.
       if above
       then Inl (ValueError ''Parameter {} is {}, while it should be in the range ({},{})'')
       else Inr ()))))"

definition check_one_of :: "pyval \<Rightarrow> pyval \<Rightarrow> error + unit" where
  "check_one_of decl v =
     ebind (subscripts decl [1]) (\<lambda>allowed.
     ebind (py_iter allowed) (\<lambda>xs.
     if \<not> py_in_list v xs
     then Inl (ValueError ''Parameter {} is {}, while it should be one of the following {}'')
     else Inr ()))"

definition check_key :: "pydict \<Rightarrow> pydict \<Rightarrow> string \<Rightarrow> error + flow" where
  "check_key parameters references key =
     ebind (py_lookup parameters key) (\<lambda>v.
     ebind (py_lookup references key) (\<lambda>decl.
     ebind (py_getitem decl 0) (\<lambda>t.
     ebind (py_isinstance v t) (\<lambda>ok.
     if \<not> ok
     then Inl (TypeError ''Parameter {} is of type {} while it should be of type {}'')
     else
       ebind (py_len decl) (\<lambda>n.
       if n = 1 then Inr Continue
       else if py_eq t (VType TList) then
         ebind (py_iter v) (\<lambda>elements.
         ebind (check_elements decl elements) (\<lambda>u. Inr Break))
       else
         ebind (py_getitem decl 1) (\<lambda>r1.
         ebind (if isinstance_of r1 TTuple then check_range decl v else Inr ()) (\<lambda>u.
         ebind (if isinstance_of r1 TList then check_one_of decl v else Inr ()) (\<lambda>u.
         Inr Continue))))))))"

fun validate_loop :: "pydict \<Rightarrow> pydict \<Rightarrow> string list \<Rightarrow> error + unit" where
  "validate_loop parameters references [] = Inr ()"
| "validate_loop parameters references (key # keys) =
     (case check_key parameters references key of
        Inl e \<Rightarrow> Inl e
      | Inr Break \<Rightarrow> Inr ()
      | Inr Continue \<Rightarrow> validate_loop parameters references keys)"

definition validate_params :: "pydict \<Rightarrow> pydict \<Rightarrow> error + unit" where
  "validate_params parameters references =
     validate_loop parameters references (dict_keys references)"

subsection \<open>validate_metric_params\<close>

text \<open>
  A declaration of the registry is \<open>(name, type, (min, max))\<close>. The literal \<open>1e-16\<close> is the
  double \<open>2028240960365167 / 2^104\<close>. \<open>check_declared_param\<close> is the body of the loop over the
  declarations of the metric, \<open>check_available\<close> the loop over the keys of \<open>metric_params\<close>.
\<close>

type_synonym param_decl = "string \<times> pytype \<times> pyval \<times> pyval"

definition available_metrics :: "(string \<times> param_decl list) list" where
  "available_metrics =
     [(''bottleneck'', [(''delta'', TNumber, VFloat (Fin 0), VFloat (Fin 1))]),
      (''wasserstein'', [(''p'', TInt, VInt 1, VFloat PInf),
                         (''delta'', TNumber, VFloat (Fin (2028240960365167 / 2 ^ 104)), VFloat (Fin 1))]),
      (''betti'', [(''p'', TNumber, VInt 1, VFloat PInf),
                   (''n_values'', TInt, VInt 1, VFloat PInf)]),
      (''landscape'', [(''p'', TNumber, VInt 1, VFloat PInf),
                       (''n_values'', TInt, VInt 1, VFloat PInf),
                       (''n_layers'', TInt, VInt 1, VFloat PInf)]),
      (''heat'', [(''order'', TNumber, VInt 1, VFloat PInf),
                  (''n_values'', TInt, VInt 1, VFloat PInf),
                  (''sigma'', TNumber, VFloat (Fin 0), VFloat PInf)])]"

definition available_metric_params :: "string list" where
  "available_metric_params =
     remdups (concat (map (\<lambda>(metric, param_list). map fst param_list) available_metrics))"

definition check_declared_param :: "pydict \<Rightarrow> param_decl \<Rightarrow> error + unit" where
  "check_declared_param metric_params d =
     (case d of (param, param_type, lo, hi) \<Rightarrow>
        (case map_of metric_params param of
           None \<Rightarrow> Inr ()
         | Some input_param \<Rightarrow>
             if \<not> isinstance_of input_param param_type
             then Inl (TypeError ''{} in params_metric is of type {} but must be an {}.'')
             else
               ebind (py_lt input_param lo) (\<lambda>below.
               if below
               then Inl (ValueError ''{} in param_metric should be between {} and {} but has been set to {}.'')
               else
                 ebind (py_gt input_param hi) (\<lambda>above.
                 if above
                 then Inl (ValueError ''{} in param_metric should be between {} and {} but has been set to {}.'')
                 else Inr ()))))"

fun check_declared :: "pydict \<Rightarrow> param_decl list \<Rightarrow> error + unit" where
  "check_declared metric_params [] = Inr ()"
| "check_declared metric_params (d # ds) =
     (case check_declared_param metric_params d of
        Inl e \<Rightarrow> Inl e
      | Inr u \<Rightarrow> check_declared metric_params ds)"

fun check_available :: "string list \<Rightarrow> error + unit" where
  "check_available [] = Inr ()"
| "check_available (param # params) =
     (if param \<notin> set available_metric_params
      then Inl (ValueError ''{} in param_metric is not an available parameter. Available metric_params. are {}'')
      else check_available params)"

definition validate_metric_params :: "string \<Rightarrow> pydict \<Rightarrow> error + unit" where
  "validate_metric_params metric metric_params =
     (case map_of available_metrics metric of
        None \<Rightarrow> Inl (ValueError ''No metric called {}. Available metrics are {}.'')
      | Some param_list \<Rightarrow>
          ebind (check_declared metric_params param_list) (\<lambda>u.
          check_available (dict_keys metric_params)))"

subsection \<open>Example inputs\<close>

definition references_list :: pydict where
  "references_list =
     [(''a'', VList [VType TList, VList [VType TInt]]), (''b'', VList [VType TInt])]"

definition references_bare_list :: pydict where
  "references_bare_list = [(''a'', VList [VType TList]), (''b'', VList [VType TInt])]"

definition references_scalars :: pydict where
  "references_scalars =
     [(''a'', VList [VType TInt, VTuple [VInt 0, VFloat PInf]]), (''b'', VList [VType TInt])]"

definition parameters_bad_b :: pydict where
  "parameters_bad_b = [(''a'', VList [VInt 1]), (''b'', VStr ''x'')]"

definition parameters_no_b :: pydict where
  "parameters_no_b = [(''a'', VList [VInt 1])]"

definition parameters_int_a :: pydict where
  "parameters_int_a = [(''a'', VInt 3)]"

subsection \<open>Properties of parameters\<close>

text \<open>
  The parameter names declared by some metric of the registry; the declared parameters that
  are supplied and pass their checks; a value inside the inclusive range of its declaration.
\<close>

definition recognized_names :: "string set" where
  "recognized_names =
     {param. \<exists>metric param_list t lo hi.
        (metric, param_list) \<in> set available_metrics \<and> (param, t, lo, hi) \<in> set param_list}"

definition has_unrecognized_key :: "pydict \<Rightarrow> bool" where
  "has_unrecognized_key metric_params =
     (\<exists>param\<in>set (dict_keys metric_params). param \<notin> recognized_names)"

definition declared_checks_pass :: "pydict \<Rightarrow> param_decl list \<Rightarrow> bool" where
  "declared_checks_pass metric_params param_list =
     (\<forall>(param, t, lo, hi)\<in>set param_list. \<forall>v. map_of metric_params param = Some v \<longrightarrow>
        isinstance_of v t \<and> py_lt v lo = Inr False \<and> py_gt v hi = Inr False)"

definition within_range :: "pyval \<Rightarrow> pyval \<Rightarrow> pyval \<Rightarrow> bool" where
  "within_range v lo hi =
     (case (num_of lo, num_of v, num_of hi) of
        (Some l, Some x, Some h) \<Rightarrow> fle l x \<and> fle x h
      | _ \<Rightarrow> False)"

definition supplied_of_declared_type :: "pydict \<Rightarrow> param_decl list \<Rightarrow> bool" where
  "supplied_of_declared_type metric_params param_list =
     (\<forall>(param, t, lo, hi)\<in>set param_list. \<forall>v. map_of metric_params param = Some v \<longrightarrow>
        isinstance_of v t \<and> v \<noteq> VFloat NaN)"

definition supplied_out_of_range :: "pydict \<Rightarrow> param_decl list \<Rightarrow> bool" where
  "supplied_out_of_range metric_params param_list =
     (\<exists>(param, t, lo, hi)\<in>set param_list. \<exists>v. map_of metric_params param = Some v \<and>
        \<not> within_range v lo hi)"

definition bounds_ordered :: "param_decl list \<Rightarrow> bool" where
  "bounds_ordered param_list =
     (\<forall>(param, t, lo, hi)\<in>set param_list.
        (t = TInt \<or> t = TNumber) \<and>
        (\<exists>l. num_of lo = Some l \<and> l \<noteq> NaN) \<and> (\<exists>h. num_of hi = Some h \<and> h \<noteq> NaN))"

subsection \<open>Properties of diagrams and graphs\<close>

text \<open>
  The conditions the claims speak of, over the entries \<open>X[i, j, k]\<close> of an array of shape
  \<open>(n_samples, n_points, 3)\<close>: column 0 is the birth, column 1 the death, column 2 the
  homology dimension.
\<close>

fun nonneg_integer :: "npfloat \<Rightarrow> bool" where
  "nonneg_integer (Fin a) = (0 \<le> a \<and> a = of_int \<lfloor>a\<rfloor>)"
| "nonneg_integer x = False"

definition above_diagonal :: "ndarray \<Rightarrow> bool" where
  "above_diagonal X = (\<forall>i<shape X ! 0. \<forall>j<shape X ! 1. fge (at3 X i j 1) (at3 X i j 0))"

definition dims_nonneg_integers :: "ndarray \<Rightarrow> bool" where
  "dims_nonneg_integers X = (\<forall>j<shape X ! 1. nonneg_integer (at3 X 0 j 2))"

definition dims_only_infinite :: "ndarray \<Rightarrow> bool" where
  "dims_only_infinite X = (\<forall>j<shape X ! 1. at3 X 0 j 2 = PInf)"

definition passes_dimension_checks :: "ndarray \<Rightarrow> bool" where
  "passes_dimension_checks X =
     (length (shape X) = 3 \<and> shape X ! 2 = 3 \<and>
      (case first_sample_dims X of
         Inl e \<Rightarrow> False
       | Inr column \<Rightarrow>
           check_dims (py_sorted (py_set column)) (py_sorted (py_set column)) = Inr ()))"

definition has_point_under_diagonal :: "ndarray \<Rightarrow> bool" where
  "has_point_under_diagonal X =
     (\<exists>i<shape X ! 0. \<exists>j<shape X ! 1. flt (at3 X i j 1) (at3 X i j 0))"

definition points_above_diagonal :: "ndarray \<Rightarrow> (nat \<times> nat) set" where
  "points_above_diagonal X =
     {(i, j). i < shape X ! 0 \<and> j < shape X ! 1 \<and> fge (at3 X i j 1) (at3 X i j 0)}"

definition dims_have_infinite :: "ndarray \<Rightarrow> bool" where
  "dims_have_infinite X = (\<exists>j<shape X ! 1. at3 X 0 j 2 = PInf)"

definition dims_have_other :: "ndarray \<Rightarrow> bool" where
  "dims_have_other X = (\<exists>j<shape X ! 1. at3 X 0 j 2 \<noteq> PInf)"

definition dims_have_minus_infinite :: "ndarray \<Rightarrow> bool" where
  "dims_have_minus_infinite X = (\<exists>j<shape X ! 1. at3 X 0 j 2 = NInf)"

text \<open>Example arrays.\<close>

definition diagram_ok :: ndarray where
  "diagram_ok = \<lparr> shape = [1, 2, 3], data = [Fin 0, Fin 1, Fin 0, Fin 0, Fin 2, Fin 1] \<rparr>"

definition diagram_stacked :: ndarray where
  "diagram_stacked = \<lparr> shape = [1, 2, 3], data = [Fin 0, Fin 1, PInf, Fin 0, Fin 2, PInf] \<rparr>"

definition diagram_empty :: ndarray where
  "diagram_empty = \<lparr> shape = [0, 0, 3], data = [] \<rparr>"

definition diagram_under :: ndarray where
  "diagram_under = \<lparr> shape = [1, 2, 3], data = [Fin 0, Fin 1, Fin 0, Fin 2, Fin 1, Fin 1] \<rparr>"

definition diagram_minus_inf :: ndarray where
  "diagram_minus_inf = \<lparr> shape = [1, 2, 3], data = [Fin 0, Fin 1, NInf, Fin 0, Fin 1, PInf] \<rparr>"

definition diagram_zero_inf :: ndarray where
  "diagram_zero_inf = \<lparr> shape = [1, 2, 3], data = [Fin 0, Fin 1, Fin 0, Fin 0, Fin 1, PInf] \<rparr>"

definition symmetric_within_tolerance :: "(npfloat \<Rightarrow> npfloat \<Rightarrow> bool) \<Rightarrow> ndarray \<Rightarrow> bool" where
  "symmetric_within_tolerance isclose X =
     (\<forall>i<shape X ! 0. \<forall>j<shape X ! 1. \<forall>k<shape X ! 2. isclose (at3 X i j k) (at3 X i k j))"

definition has_negative_entry :: "ndarray \<Rightarrow> bool" where
  "has_negative_entry X =
     (\<exists>i<shape X ! 0. \<exists>j<shape X ! 1. \<exists>k<shape X ! 2. flt (at3 X i j k) (Fin 0))"

definition has_negative_off_diagonal :: "ndarray \<Rightarrow> bool" where
  "has_negative_off_diagonal X =
     (\<exists>i<shape X ! 0. \<exists>j<shape X ! 1. \<exists>k<shape X ! 2. j \<noteq> k \<and> flt (at3 X i j k) (Fin 0))"


text \<open>
  Example graphs: a valid one; one with diagonal \<open>+1, -1\<close>; a valid one in which one entry is
  replaced by \<open>-1\<close>; one with a single negative entry \<open>-2^-40\<close>, within the tolerance of its
  mirror entry 0.
\<close>

definition graph_ok :: ndarray where
  "graph_ok = \<lparr> shape = [1, 2, 2], data = [Fin 0, Fin 1, Fin 1, Fin 0] \<rparr>"


definition graph_one_negative :: ndarray where
  "graph_one_negative = \<lparr> shape = [1, 2, 2], data = [Fin 0, Fin (- 1), Fin 1, Fin 0] \<rparr>"

definition graph_negative :: ndarray where
  "graph_negative = \<lparr> shape = [1, 2, 2], data = [Fin 0, Fin (- (1 / 2 ^ 40)), Fin 0, Fin 0] \<rparr>"

text \<open>
  The operations of numpy on the example graphs. \<open>sum_no_rounding\<close> adds without rounding and
  \<open>close_no_rounding\<close> is the comparison \<open>|a - b| \<le> atol + rtol * |b|\<close> of \<open>np.isclose\<close> on the
  doubles \<open>atol = 1e-08\<close> and \<open>rtol = 1e-05\<close>, evaluated without rounding. They stand for
  \<open>np.sum\<close> and \<open>np.isclose\<close> on the example graphs only, whose entries are 0, 1, -1 and
  \<open>-2^-40\<close>: there no addition of \<open>np.sum\<close> rounds, and the comparison has the outcome numpy
  computes (the two sides are equal, or differ by 2 against a tolerance below \<open>2e-05\<close>, or
  differ by \<open>2^-40\<close> against a tolerance of at least \<open>atol\<close>).
\<close>

fun add_no_rounding :: "npfloat \<Rightarrow> npfloat \<Rightarrow> npfloat" where
  "add_no_rounding NaN y = NaN"
| "add_no_rounding x NaN = NaN"
| "add_no_rounding (Fin a) (Fin b) = Fin (a + b)"
| "add_no_rounding (Fin a) y = y"
| "add_no_rounding x (Fin b) = x"
| "add_no_rounding PInf PInf = PInf"
| "add_no_rounding NInf NInf = NInf"
| "add_no_rounding PInf NInf = NaN"
| "add_no_rounding NInf PInf = NaN"

definition sum_no_rounding :: "npfloat list \<Rightarrow> npfloat" where
  "sum_no_rounding xs = foldl add_no_rounding (Fin 0) xs"

fun close_no_rounding :: "npfloat \<Rightarrow> npfloat \<Rightarrow> bool" where
  "close_no_rounding (Fin a) (Fin b) =
     (\<bar>a - b\<bar> \<le> 3022314549036573 / 2 ^ 78 + 5902958103587057 / 2 ^ 69 * \<bar>b\<bar>)"
| "close_no_rounding PInf PInf = True"
| "close_no_rounding NInf NInf = True"
| "close_no_rounding x y = False"

subsection \<open>Sequencing of raising steps\<close>

lemma ebind_Inr [simp]: "ebind (Inr v) f = f v"
  by (simp add: ebind_def)

lemma ebind_Inl [simp]: "ebind (Inl e) f = Inl e"
  by (simp add: ebind_def)

subsection \<open>Sets and sorting of floats\<close>

lemma feq_imp_eq: "feq x y \<Longrightarrow> x = y"
  by (cases x; cases y) auto

lemma set_py_set: "set (py_set xs) = set xs"
  by (induction xs) (auto dest: feq_imp_eq)

lemma set_py_insort: "set (py_insort x ys) = insert x (set ys)"
  by (induction ys) auto

lemma set_foldl_insort: "set (foldl (\<lambda>acc x. py_insort x acc) acc xs) = set acc \<union> set xs"
  by (induction xs arbitrary: acc) (auto simp: set_py_insort)

lemma set_py_sorted: "set (py_sorted xs) = set xs"
  by (simp add: py_sorted_def set_foldl_insort)

subsection \<open>The loop over the homology dimensions\<close>

lemma check_dims_nonneg:
  "\<forall>d\<in>set xs. nonneg_integer d \<Longrightarrow> check_dims h xs = Inr ()"
proof (induction xs)
  case Nil
  then show ?case by simp
next
  case (Cons d xs)
  then obtain a where d: "d = Fin a" "0 \<le> a" "a = of_int \<lfloor>a\<rfloor>"
    by (cases d) auto
  from d(3) have "fne d (Fin (of_int \<lfloor>a\<rfloor>)) = False"
    by (simp add: fne_def d(1))
  with Cons d show ?case
    by (simp add: fne_def)
qed

lemma py_set_all_inf:
  "\<forall>d\<in>set xs. d = PInf \<Longrightarrow> py_set xs = (if xs = [] then [] else [PInf])"
  by (induction xs) auto

subsection \<open>Counting and indexing\<close>

lemma np_count_le: "np_count bs \<le> length bs"
  by (simp add: np_count_def)

lemma np_count_Cons: "np_count (b # bs) = (if b then Suc (np_count bs) else np_count bs)"
  by (simp add: np_count_def)

lemma np_count_all:
  "np_count (map P xs) = length xs \<longleftrightarrow> (\<forall>x\<in>set xs. P x)"
proof (induction xs)
  case Nil
  then show ?case by (simp add: np_count_def)
next
  case (Cons x xs)
  have le: "np_count (map P xs) \<le> length xs"
    using np_count_le [of "map P xs"] by simp
  show ?case
  proof (cases "P x")
    case True
    with Cons show ?thesis by (simp add: np_count_Cons)
  next
    case False
    with le show ?thesis by (simp add: np_count_Cons)
  qed
qed

lemma length_indices2: "length (indices2 n m) = n * m"
  by (simp add: indices2_def)

lemma set_indices2: "set (indices2 n m) = {(i, j). i < n \<and> j < m}"
  by (auto simp: indices2_def)

lemma above_diag_count:
  "n_points_above_diag X = n_points_global X \<longleftrightarrow> above_diagonal X"
  unfolding n_points_above_diag_def n_points_global_def above_diagonal_def
  using np_count_all [of "\<lambda>(i, j). fge (at3 X i j 1) (at3 X i j 0)" "indices2 (shape X ! 0) (shape X ! 1)"]
  by (auto simp: length_indices2 set_indices2)

lemma dims_loop_ok:
  assumes "dims_nonneg_integers X \<or> dims_only_infinite X"
  shows "check_dims (py_sorted (py_set (map (\<lambda>j. at3 X 0 j 2) [0..<shape X ! 1])))
                    (py_sorted (py_set (map (\<lambda>j. at3 X 0 j 2) [0..<shape X ! 1]))) = Inr ()"
    (is "check_dims ?h ?h = _")
proof -
  let ?col = "map (\<lambda>j. at3 X 0 j 2) [0..<shape X ! 1]"
  have s: "set ?h = set ?col" by (simp add: set_py_sorted set_py_set)
  from assms show ?thesis
  proof
    assume "dims_nonneg_integers X"
    then have "\<forall>d\<in>set ?h. nonneg_integer d"
      unfolding s by (auto simp: dims_nonneg_integers_def)
    then show ?thesis by (rule check_dims_nonneg)
  next
    assume a: "dims_only_infinite X"
    then have all: "\<forall>d\<in>set ?col. d = PInf"
      by (auto simp: dims_only_infinite_def)
    show ?thesis
    proof (cases "?col = []")
      case True
      then show ?thesis by (simp add: py_sorted_def)
    next
      case False
      with py_set_all_inf [OF all] have "py_set ?col = [PInf]" by simp
      then have "?h = [PInf]" by (simp add: py_sorted_def)
      then show ?thesis by simp
    qed
  qed
qed

subsection \<open>check_diagram: valid batches\<close>

text \<open>
  C5 (amended): for every 3-dimensional array \<open>X\<close> whose third axis has size 3 and which has
  at least one sample, in which death \<open>\<ge>\<close> birth holds for every point of every sample and in
  which every homology-dimension value of the first sample is a non-negative integer (or
  every one of them is infinite), \<open>check_diagram X\<close> raises nothing and returns \<open>X\<close> itself.
\<close>

theorem check_diagram_valid:
  assumes "length (shape X) = 3" and "shape X ! 2 = 3" and "0 < shape X ! 0"
    and "above_diagonal X"
    and "dims_nonneg_integers X \<or> dims_only_infinite X"
  shows "check_diagram X = Inr X"
  using assms dims_loop_ok [of X]
  by (simp add: check_diagram_def first_sample_dims_def above_diag_count Let_def)

lemma all_less_list: "(\<forall>i<n. P i) = list_all P [0..<n]"
  by (auto simp: list_all_iff)

lemma ex_less_list: "(\<exists>i<n. P i) = list_ex P [0..<n]"
  by (auto simp: list_ex_iff)

lemmas array_eval =
  at3_def valid_array_def fge_def fle_def fne_def all_less_list ex_less_list
  indices2_def indices3_def np_count_def py_sorted_def Let_def
  eval_nat_numeral

theorem check_diagram_valid_witness:
  "valid_array diagram_ok \<and> length (shape diagram_ok) = 3 \<and> shape diagram_ok ! 2 = 3 \<and>
   0 < shape diagram_ok ! 0 \<and> above_diagonal diagram_ok \<and> dims_nonneg_integers diagram_ok \<and>
   check_diagram diagram_ok = Inr diagram_ok \<and>
   valid_array diagram_stacked \<and> above_diagonal diagram_stacked \<and>
   dims_only_infinite diagram_stacked \<and> check_diagram diagram_stacked = Inr diagram_stacked"
proof -
  have v: "valid_array diagram_ok" "valid_array diagram_stacked"
    by (simp_all add: diagram_ok_def diagram_stacked_def valid_array_def)
  have h: "length (shape diagram_ok) = 3" "shape diagram_ok ! 2 = 3" "0 < shape diagram_ok ! 0"
    "above_diagonal diagram_ok" "dims_nonneg_integers diagram_ok"
    by (simp_all add: diagram_ok_def above_diagonal_def dims_nonneg_integers_def array_eval)
  have g: "length (shape diagram_stacked) = 3" "shape diagram_stacked ! 2 = 3"
    "0 < shape diagram_stacked ! 0" "above_diagonal diagram_stacked"
    "dims_only_infinite diagram_stacked"
    by (simp_all add: diagram_stacked_def above_diagonal_def dims_only_infinite_def array_eval)
  from check_diagram_valid [of diagram_ok] check_diagram_valid [of diagram_stacked] v h g
  show ?thesis by simp
qed

lemma check_diagram_no_sample:
  "length (shape X) = 3 \<Longrightarrow> shape X ! 2 = 3 \<Longrightarrow> shape X ! 0 = 0 \<Longrightarrow>
   check_diagram X = Inl (IndexError ''index 0 is out of bounds for axis 0 with size 0'')"
  by (simp add: check_diagram_def first_sample_dims_def)

text \<open>
  C5 as stated also covers a batch with no sample; there \<open>X[0, :, 2]\<close> raises IndexError
  although every condition of the claim holds.
\<close>

theorem check_diagram_empty_batch:
  "valid_array diagram_empty \<and> length (shape diagram_empty) = 3 \<and> shape diagram_empty ! 2 = 3 \<and>
   above_diagonal diagram_empty \<and> dims_nonneg_integers diagram_empty \<and>
   check_diagram diagram_empty = Inl (IndexError ''index 0 is out of bounds for axis 0 with size 0'')"
  by (simp add: diagram_empty_def above_diagonal_def dims_nonneg_integers_def
      check_diagram_def first_sample_dims_def array_eval)

lemma flt_not_fge: "flt x y \<Longrightarrow> \<not> fge x y"
  by (cases x; cases y) (auto simp: fge_def fle_def)

lemma distinct_indices2: "distinct (indices2 n m)"
  by (simp add: indices2_def distinct_product)

lemma n_points_above_diag_card: "n_points_above_diag X = card (points_above_diagonal X)"
proof -
  let ?P = "\<lambda>(i, j). fge (at3 X i j 1) (at3 X i j 0)"
  let ?xs = "indices2 (shape X ! 0) (shape X ! 1)"
  have "n_points_above_diag X = length (filter ?P ?xs)"
    by (simp add: n_points_above_diag_def np_count_def filter_map comp_def)
  also have "\<dots> = card ({x. ?P x} \<inter> set ?xs)"
    by (rule distinct_length_filter [OF distinct_indices2])
  also have "{x. ?P x} \<inter> set ?xs = points_above_diagonal X"
    by (auto simp: set_indices2 points_above_diagonal_def)
  finally show ?thesis .
qed

subsection \<open>check_diagram: points under the diagonal\<close>

text \<open>
  C6: for every diagram batch that passes the shape and homology-dimension checks, if at least
  one point of any sample has death \<open><\<close> birth then \<open>check_diagram\<close> fails with ValueError; the
  check is a comparison of counts: the number of points with death \<open>\<ge>\<close> birth must equal
  \<open>n_samples * n_points\<close>.
\<close>

theorem check_diagram_under_diagonal:
  assumes "passes_dimension_checks X"
  shows "(has_point_under_diagonal X \<longrightarrow>
            check_diagram X = Inl (ValueError ''All points of all n_samples persistent diagrams should be above the diagonal'')) \<and>
         check_diagram X =
           (if card (points_above_diagonal X) = shape X ! 0 * shape X ! 1 then Inr X
            else Inl (ValueError ''All points of all n_samples persistent diagrams should be above the diagonal''))"
proof -
  from assms obtain column where c: "length (shape X) = 3" "shape X ! 2 = 3"
    "first_sample_dims X = Inr column"
    "check_dims (py_sorted (py_set column)) (py_sorted (py_set column)) = Inr ()"
    by (auto simp: passes_dimension_checks_def split: sum.splits)
  have r: "check_diagram X =
           (if card (points_above_diagonal X) = shape X ! 0 * shape X ! 1 then Inr X
            else Inl (ValueError ''All points of all n_samples persistent diagrams should be above the diagonal''))"
    using c by (simp add: check_diagram_def Let_def n_points_above_diag_card n_points_global_def)
  have "\<not> above_diagonal X" if "has_point_under_diagonal X"
    using that flt_not_fge by (auto simp: has_point_under_diagonal_def above_diagonal_def)
  then have "card (points_above_diagonal X) \<noteq> shape X ! 0 * shape X ! 1"
    if "has_point_under_diagonal X"
    using that above_diag_count [of X]
    by (simp add: n_points_above_diag_card n_points_global_def)
  with r show ?thesis by simp
qed

theorem check_diagram_under_diagonal_witness:
  "valid_array diagram_under \<and> passes_dimension_checks diagram_under \<and> has_point_under_diagonal diagram_under \<and>
   check_diagram diagram_under = Inl (ValueError ''All points of all n_samples persistent diagrams should be above the diagonal'')"
proof -
  have v: "valid_array diagram_under"
    by (simp add: diagram_under_def valid_array_def)
  have h: "passes_dimension_checks diagram_under" "has_point_under_diagonal diagram_under"
    by (simp_all add: diagram_under_def passes_dimension_checks_def has_point_under_diagonal_def
        first_sample_dims_def array_eval)
  from check_diagram_under_diagonal [of diagram_under] h show ?thesis using v by simp
qed

subsection \<open>check_diagram: the infinite homology dimension\<close>

lemma check_dims_inf_fails:
  "PInf \<in> set xs \<Longrightarrow> length h \<noteq> 1 \<Longrightarrow>
   \<exists>e. check_dims h xs = Inl e \<and> (NInf \<notin> set xs \<longrightarrow> (\<exists>m. e = ValueError m))"
proof (induction xs)
  case Nil
  then show ?case by simp
next
  case (Cons d xs)
  show ?case
  proof (cases d)
    case (Fin a)
    with Cons show ?thesis by (auto split: sum.splits)
  next
    case PInf
    with Cons show ?thesis by simp
  next
    case NInf
    then show ?thesis by simp
  next
    case NaN
    then show ?thesis by simp
  qed
qed

lemma two_values_length:
  assumes "x \<in> set h" and "y \<in> set h" and "x \<noteq> y"
  shows "length h \<noteq> 1"
proof
  assume "length h = 1"
  then obtain z where "h = [z]" by (cases h) auto
  with assms show False by auto
qed

text \<open>
  When the homology-dimension values of the first sample contain the infinite one together
  with at least one other value, \<open>check_diagram\<close> fails, and with a ValueError whenever minus
  infinity is not among those values.
\<close>

lemma check_diagram_infinite_mixed:
  assumes "length (shape X) = 3" and "shape X ! 2 = 3" and "0 < shape X ! 0"
    and "dims_have_infinite X" and "dims_have_other X"
  shows "raises (check_diagram X) \<and>
         (\<not> dims_have_minus_infinite X \<longrightarrow> is_ValueError (check_diagram X))"
proof -
  let ?col = "map (\<lambda>j. at3 X 0 j 2) [0..<shape X ! 1]"
  let ?h = "py_sorted (py_set ?col)"
  have s: "set ?h = (\<lambda>j. at3 X 0 j 2) ` {0..<shape X ! 1}"
    by (simp add: set_py_sorted set_py_set)
  from assms(4) obtain j where "j < shape X ! 1" "at3 X 0 j 2 = PInf"
    by (auto simp: dims_have_infinite_def)
  then have inf: "PInf \<in> set ?h"
    unfolding s by force
  from assms(5) obtain k where "k < shape X ! 1" "at3 X 0 k 2 \<noteq> PInf"
    by (auto simp: dims_have_other_def)
  then have "at3 X 0 k 2 \<in> set ?h"
    unfolding s by force
  with inf \<open>at3 X 0 k 2 \<noteq> PInf\<close> have len: "length ?h \<noteq> 1"
    by (metis two_values_length)
  from check_dims_inf_fails [OF inf len] obtain e where
    e: "check_dims ?h ?h = Inl e" "NInf \<notin> set ?h \<longrightarrow> (\<exists>m. e = ValueError m)" by blast
  have r: "check_diagram X = Inl e"
    using assms(1-3) e(1) by (simp add: check_diagram_def first_sample_dims_def Let_def)
  have "NInf \<notin> set ?h" if "\<not> dims_have_minus_infinite X"
    using that unfolding s by (auto simp: dims_have_minus_infinite_def)
  with e(2) r show ?thesis by auto
qed

lemma check_diagram_infinite_mixed_example:
  "valid_array diagram_zero_inf \<and> length (shape diagram_zero_inf) = 3 \<and> shape diagram_zero_inf ! 2 = 3 \<and>
   0 < shape diagram_zero_inf ! 0 \<and> dims_have_infinite diagram_zero_inf \<and>
   dims_have_other diagram_zero_inf \<and> \<not> dims_have_minus_infinite diagram_zero_inf \<and>
   is_ValueError (check_diagram diagram_zero_inf)"
proof -
  have v: "valid_array diagram_zero_inf"
    by (simp add: diagram_zero_inf_def valid_array_def)
  have h: "length (shape diagram_zero_inf) = 3" "shape diagram_zero_inf ! 2 = 3"
    "0 < shape diagram_zero_inf ! 0" "dims_have_infinite diagram_zero_inf"
    "dims_have_other diagram_zero_inf" "\<not> dims_have_minus_infinite diagram_zero_inf"
    by (simp_all add: diagram_zero_inf_def dims_have_infinite_def dims_have_other_def
        dims_have_minus_infinite_def array_eval)
  from check_diagram_infinite_mixed [of diagram_zero_inf] h show ?thesis using v by simp
qed

text \<open>
  C7: a diagram batch whose first sample's homology-dimension values contain the infinite one
  together with another value must fail with ValueError. On the label set \<open>{-inf, inf}\<close> the
  code does not: the sorted list starts with \<open>-inf\<close>, which is not \<open>np.inf\<close>, so \<open>int(dim)\<close> is
  evaluated in the branch that raises ValueError for a dimension that cannot be cast to an
  integer, and raises OverflowError there, before the test that raises ValueError for a
  negative dimension. Every other label beside \<open>inf\<close> (0, 0.5, -1, NaN) gives ValueError.
\<close>

theorem check_diagram_minus_infinite:
  "valid_array diagram_minus_inf \<and> length (shape diagram_minus_inf) = 3 \<and>
   shape diagram_minus_inf ! 2 = 3 \<and> dims_have_infinite diagram_minus_inf \<and>
   dims_have_other diagram_minus_inf \<and>
   check_diagram diagram_minus_inf = Inl (OverflowError ''cannot convert float infinity to integer'') \<and>
   \<not> is_ValueError (check_diagram diagram_minus_inf)"
  by (simp add: diagram_minus_inf_def dims_have_infinite_def dims_have_other_def
      check_diagram_def first_sample_dims_def array_eval)

subsection \<open>The transposed array\<close>

lemma nth_indices2: "i < n \<Longrightarrow> j < m \<Longrightarrow> indices2 n m ! (i * m + j) = (i, j)"
proof -
  assume a: "i < n" "j < m"
  then have "i * m + j < Suc i * m" by simp
  also have "\<dots> \<le> n * m" using a(1) by (simp add: Suc_leI mult_le_mono1 del: mult_Suc)
  finally have lt: "i * m + j < n * m" .
  with a show ?thesis
    by (simp add: indices2_def product_nth)
qed

lemma index2_less: "i < n \<Longrightarrow> j < m \<Longrightarrow> i * m + j < n * (m::nat)"
proof -
  assume a: "i < n" "j < m"
  then have "i * m + j < Suc i * m" by simp
  also have "\<dots> \<le> n * m" using a(1) by (simp add: Suc_leI mult_le_mono1 del: mult_Suc)
  finally show ?thesis .
qed

lemma nth_indices3:
  assumes "i < n" and "j < m" and "k < l"
  shows "indices3 n m l ! ((i * m + j) * l + k) = (i, j, k)"
proof -
  have jk: "j * l + k < m * l" using assms by (simp add: index2_less)
  have e: "(i * m + j) * l + k = i * (m * l) + (j * l + k)"
    by (simp add: algebra_simps)
  have lt: "i * (m * l) + (j * l + k) < n * (m * l)"
    using assms(1) jk by (simp add: index2_less)
  have inner: "List.product [0..<m] [0..<l] ! (j * l + k) = (j, k)"
    using nth_indices2 [OF assms(2,3)] by (simp add: indices2_def)
  show ?thesis
    unfolding e indices3_def using lt jk assms inner
    by (simp add: product_nth)
qed

lemma length_indices3: "length (indices3 n m l) = n * (m * l)"
  by (simp add: indices3_def)

lemma set_indices3: "set (indices3 n m l) = {(i, j, k). i < n \<and> j < m \<and> k < l}"
  by (auto simp: indices3_def)

lemma at3_transpose:
  assumes "i < shape X ! 0" and "j < shape X ! 2" and "k < shape X ! 1"
  shows "at3 (transpose_021 X) i j k = at3 X i k j"
proof -
  let ?n = "shape X ! 0" and ?m = "shape X ! 2" and ?l = "shape X ! 1"
  have lt: "(i * ?m + j) * ?l + k < length (indices3 ?n ?m ?l)"
  proof -
    have "(i * ?m + j) * ?l + k = i * (?m * ?l) + (j * ?l + k)" by (simp add: algebra_simps)
    also have "\<dots> < ?n * (?m * ?l)"
      using assms by (simp add: index2_less)
    finally show ?thesis by (simp add: length_indices3)
  qed
  have "at3 (transpose_021 X) i j k =
        map (\<lambda>(i, j, k). at3 X i k j) (indices3 ?n ?m ?l) ! ((i * ?m + j) * ?l + k)"
    by (simp add: at3_def transpose_021_def)
  also have "\<dots> = (\<lambda>(i, j, k). at3 X i k j) (indices3 ?n ?m ?l ! ((i * ?m + j) * ?l + k))"
    using lt by (rule nth_map)
  also have "\<dots> = at3 X i k j"
    using assms by (simp add: nth_indices3)
  finally show ?thesis .
qed

lemma allclose_transpose:
  assumes "shape X ! 1 = shape X ! 2"
  shows "allclose isclose X (transpose_021 X) = symmetric_within_tolerance isclose X"
  using assms
  by (auto simp: allclose_def symmetric_within_tolerance_def list_all_iff set_indices3 at3_transpose)

subsection \<open>Negative entries and the sum of the diagonal\<close>

lemma np_count_pos: "(0 < np_count (map P xs)) = (\<exists>x\<in>set xs. P x)"
  by (auto simp: np_count_def filter_map comp_def filter_empty_conv)

lemma n_negative_pos: "(0 < n_negative X) = has_negative_entry X"
  by (auto simp: n_negative_def np_count_pos set_indices3 has_negative_entry_def)

lemma fne_zero: "fne x (Fin 0) = (x \<noteq> Fin 0)"
  by (cases x) (auto simp: fne_def)

lemma has_negative_off_diagonal_entry: "has_negative_off_diagonal X \<Longrightarrow> has_negative_entry X"
  by (auto simp: has_negative_off_diagonal_def has_negative_entry_def)





subsection \<open>check_graph: the diagonal, symmetry and sign checks\<close>


text \<open>
  C9: for every 3-dimensional array \<open>X\<close> with square sample matrices, \<open>check_graph X\<close> returns
  \<open>X\<close> itself when the diagonal entries sum to zero, \<open>X\<close> is equal within tolerance to its
  transpose along the last two axes and no entry is negative; and it fails with ValueError
  whenever some entry is negative, in particular a single off-diagonal one, whatever else
  holds of the batch (when the diagonal and symmetry checks pass, with the ValueError of the
  sign check).
\<close>

theorem check_graph_valid:
  assumes "length (shape X) = 3" and "shape X ! 1 = shape X ! 2"
  shows "(np_sum (diagonal X) = Fin 0 \<and> symmetric_within_tolerance isclose X \<and>
          \<not> has_negative_entry X \<longrightarrow> check_graph np_sum isclose X = Inr X) \<and>
         (has_negative_entry X \<longrightarrow> is_ValueError (check_graph np_sum isclose X)) \<and>
         (has_negative_off_diagonal X \<longrightarrow> is_ValueError (check_graph np_sum isclose X)) \<and>
         (np_sum (diagonal X) = Fin 0 \<and> symmetric_within_tolerance isclose X \<and>
          has_negative_entry X \<longrightarrow>
            check_graph np_sum isclose X =
              Inl (ValueError ''At least one matrix element is smaller than 0''))"
proof -
  have r: "check_graph np_sum isclose X =
      (if np_sum (diagonal X) \<noteq> Fin 0
       then Inl (ValueError ''At least one matrix diagonal element is not 0'')
       else if \<not> symmetric_within_tolerance isclose X
       then Inl (ValueError ''Matrix is not symmetric'')
       else if has_negative_entry X
       then Inl (ValueError ''At least one matrix element is smaller than 0'')
       else Inr X)"
    using assms by (simp add: check_graph_def fne_zero allclose_transpose n_negative_pos)
  have n: "is_ValueError (check_graph np_sum isclose X)" if "has_negative_entry X"
    using that by (simp add: r)
  from r n has_negative_off_diagonal_entry [of X] show ?thesis by auto
qed

lemmas graph_eval =
  diagonal_def symmetric_within_tolerance_def has_negative_entry_def
  has_negative_off_diagonal_def sum_no_rounding_def allclose_def n_negative_def
  transpose_021_def

theorem check_graph_valid_witness:
  "valid_array graph_ok \<and> length (shape graph_ok) = 3 \<and> shape graph_ok ! 1 = shape graph_ok ! 2 \<and>
   sum_no_rounding (diagonal graph_ok) = Fin 0 \<and>
   symmetric_within_tolerance close_no_rounding graph_ok \<and> \<not> has_negative_entry graph_ok \<and>
   check_graph sum_no_rounding close_no_rounding graph_ok = Inr graph_ok \<and>
   valid_array graph_one_negative \<and> has_negative_off_diagonal graph_one_negative \<and>
   is_ValueError (check_graph sum_no_rounding close_no_rounding graph_one_negative) \<and>
   check_graph sum_no_rounding close_no_rounding graph_one_negative =
     Inl (ValueError ''Matrix is not symmetric'') \<and>
   valid_array graph_negative \<and> sum_no_rounding (diagonal graph_negative) = Fin 0 \<and>
   symmetric_within_tolerance close_no_rounding graph_negative \<and>
   has_negative_off_diagonal graph_negative \<and>
   check_graph sum_no_rounding close_no_rounding graph_negative =
     Inl (ValueError ''At least one matrix element is smaller than 0'')"
proof -
  have v: "valid_array graph_ok" "valid_array graph_one_negative" "valid_array graph_negative"
    by (simp_all add: graph_ok_def graph_one_negative_def graph_negative_def valid_array_def)
  have h: "length (shape graph_ok) = 3" "shape graph_ok ! 1 = shape graph_ok ! 2"
    "sum_no_rounding (diagonal graph_ok) = Fin 0"
    "symmetric_within_tolerance close_no_rounding graph_ok"
    "\<not> has_negative_entry graph_ok"
    by (simp_all add: graph_ok_def graph_eval array_eval)
  have o: "length (shape graph_one_negative) = 3"
    "shape graph_one_negative ! 1 = shape graph_one_negative ! 2"
    "has_negative_off_diagonal graph_one_negative"
    by (simp_all add: graph_one_negative_def graph_eval array_eval)
  have e: "check_graph sum_no_rounding close_no_rounding graph_one_negative =
     Inl (ValueError ''Matrix is not symmetric'')"
    by (simp add: graph_one_negative_def check_graph_def graph_eval array_eval)
  have g: "length (shape graph_negative) = 3" "shape graph_negative ! 1 = shape graph_negative ! 2"
    "sum_no_rounding (diagonal graph_negative) = Fin 0"
    "symmetric_within_tolerance close_no_rounding graph_negative"
    "has_negative_off_diagonal graph_negative" "has_negative_entry graph_negative"
    by (simp_all add: graph_negative_def graph_eval array_eval)
  from check_graph_valid [of graph_ok sum_no_rounding close_no_rounding]
    check_graph_valid [of graph_one_negative sum_no_rounding close_no_rounding]
    check_graph_valid [of graph_negative sum_no_rounding close_no_rounding] v h o e g
  show ?thesis by simp
qed


subsection \<open>validate_metric_params: unknown names and ranges\<close>

lemma set_available_metric_params: "set available_metric_params = recognized_names"
  by (force simp: available_metric_params_def recognized_names_def)

lemma check_available_result:
  "check_available params =
     (if \<exists>param\<in>set params. param \<notin> recognized_names
      then Inl (ValueError ''{} in param_metric is not an available parameter. Available metric_params. are {}'')
      else Inr ())"
  by (induction params) (auto simp: set_available_metric_params)

lemma py_lt_num: "num_of a = Some x \<Longrightarrow> num_of b = Some y \<Longrightarrow> py_lt a b = Inr (flt x y)"
  by (cases a; cases b) auto

lemma py_gt_num: "num_of a = Some x \<Longrightarrow> num_of b = Some y \<Longrightarrow> py_gt a b = Inr (flt y x)"
  by (simp add: py_gt_def py_lt_num)

lemma fle_iff_not_flt: "x \<noteq> NaN \<Longrightarrow> y \<noteq> NaN \<Longrightarrow> fle x y = (\<not> flt y x)"
  by (cases x; cases y) (auto simp: fle_def)

lemma num_of_instance:
  assumes "isinstance_of v t" and "t = TInt \<or> t = TNumber" and "v \<noteq> VFloat NaN"
  shows "\<exists>x. num_of v = Some x \<and> x \<noteq> NaN"
  using assms by (cases v) (auto simp: isinstance_of_def issubclass_def)

lemma check_declared_param_absent:
  "map_of metric_params param = None \<Longrightarrow>
   check_declared_param metric_params (param, t, lo, hi) = Inr ()"
  by (simp add: check_declared_param_def)

lemma check_declared_param_range:
  assumes "map_of metric_params param = Some v"
    and "isinstance_of v t" and "v \<noteq> VFloat NaN"
    and "t = TInt \<or> t = TNumber"
    and "num_of lo = Some l" and "l \<noteq> NaN" and "num_of hi = Some h" and "h \<noteq> NaN"
  shows "check_declared_param metric_params (param, t, lo, hi) =
           (if within_range v lo hi then Inr ()
            else Inl (ValueError ''{} in param_metric should be between {} and {} but has been set to {}.''))"
proof -
  from num_of_instance [OF assms(2,4,3)] obtain x where x: "num_of v = Some x" "x \<noteq> NaN"
    by blast
  have w: "within_range v lo hi = (\<not> flt x l \<and> \<not> flt h x)"
    using x assms(5-8) by (simp add: within_range_def fle_iff_not_flt)
  show ?thesis
    unfolding w using assms(1,2) x(1) assms(5,7)
    by (simp add: check_declared_param_def py_lt_num py_gt_num)
qed

lemma check_declared_result:
  assumes "bounds_ordered param_list" and "supplied_of_declared_type metric_params param_list"
  shows "check_declared metric_params param_list =
           (if supplied_out_of_range metric_params param_list
            then Inl (ValueError ''{} in param_metric should be between {} and {} but has been set to {}.'')
            else Inr ())"
  using assms
proof (induction param_list)
  case Nil
  then show ?case by (simp add: supplied_out_of_range_def)
next
  case (Cons d ds)
  obtain param t lo hi where d: "d = (param, t, lo, hi)" by (cases d) auto
  from Cons.prems have b: "bounds_ordered ds" "supplied_of_declared_type metric_params ds"
    by (simp_all add: bounds_ordered_def supplied_of_declared_type_def)
  note ih = Cons.IH [OF b]
  have o: "supplied_out_of_range metric_params (d # ds) =
           ((\<exists>v. map_of metric_params param = Some v \<and> \<not> within_range v lo hi) \<or>
            supplied_out_of_range metric_params ds)"
    by (simp add: supplied_out_of_range_def d)
  show ?case
  proof (cases "map_of metric_params param")
    case None
    with ih o show ?thesis
      by (simp add: d check_declared_param_absent)
  next
    case (Some v)
    from Cons.prems d Some obtain l h where
      p: "isinstance_of v t" "v \<noteq> VFloat NaN" "t = TInt \<or> t = TNumber"
         "num_of lo = Some l" "l \<noteq> NaN" "num_of hi = Some h" "h \<noteq> NaN"
      by (auto simp: bounds_ordered_def supplied_of_declared_type_def)
    from check_declared_param_range [OF Some p] ih o Some show ?thesis
      by (simp add: d)
  qed
qed

lemma check_declared_pass:
  "declared_checks_pass metric_params param_list \<Longrightarrow>
   check_declared metric_params param_list = Inr ()"
proof (induction param_list)
  case Nil
  then show ?case by simp
next
  case (Cons d ds)
  obtain param t lo hi where d: "d = (param, t, lo, hi)" by (cases d) auto
  from Cons.prems have "declared_checks_pass metric_params ds"
    by (simp add: declared_checks_pass_def)
  then have ih: "check_declared metric_params ds = Inr ()" by (rule Cons.IH)
  have "check_declared_param metric_params d = Inr ()"
    using Cons.prems
    by (cases "map_of metric_params param")
       (auto simp: d declared_checks_pass_def check_declared_param_def)
  with ih show ?case by simp
qed

lemma registry_lists:
  assumes "map_of available_metrics metric = Some param_list"
  shows "bounds_ordered param_list"
  using assms
  by (auto simp: available_metrics_def bounds_ordered_def split: if_splits)

text \<open>
  C4: for every metric name that is not a key of the registry (whose keys are exactly
  bottleneck, wasserstein, betti, landscape, heat) and every \<open>metric_params\<close>,
  \<open>validate_metric_params\<close> fails with ValueError, whatever the parameters are.
\<close>

theorem validate_metric_params_unknown_metric:
  "set (map fst available_metrics) = {''bottleneck'', ''wasserstein'', ''betti'', ''landscape'', ''heat''} \<and>
   (metric \<notin> set (map fst available_metrics) \<longrightarrow>
      validate_metric_params metric metric_params =
        Inl (ValueError ''No metric called {}. Available metrics are {}.''))"
proof -
  have "map_of available_metrics metric = None" if "metric \<notin> set (map fst available_metrics)"
    using that by (simp add: map_of_eq_None_iff)
  then show ?thesis
    by (auto simp: validate_metric_params_def) (auto simp: available_metrics_def)
qed

theorem validate_metric_params_unknown_metric_witness:
  "''unknown_metric'' \<notin> set (map fst available_metrics) \<and>
   validate_metric_params ''unknown_metric'' [] =
     Inl (ValueError ''No metric called {}. Available metrics are {}.'') \<and>
   validate_metric_params ''unknown_metric'' [(''p'', VStr ''two'')] =
     Inl (ValueError ''No metric called {}. Available metrics are {}.'')"
proof -
  have h: "''unknown_metric'' \<notin> set (map fst available_metrics)"
    by (simp add: available_metrics_def)
  from validate_metric_params_unknown_metric [of "''unknown_metric''" "[]"]
    validate_metric_params_unknown_metric [of "''unknown_metric''" "[(''p'', VStr ''two'')]"] h
  show ?thesis by simp
qed

text \<open>
  C2: for every metric of the registry and every \<open>metric_params\<close> whose declared and supplied
  parameters all pass their type and range checks, \<open>validate_metric_params\<close> fails with
  ValueError if and only if \<open>metric_params\<close> has a key that no metric of the registry declares;
  so \<open>validate_metric_params("heat", {"bogus_param": 1})\<close> fails with ValueError.
\<close>

theorem validate_metric_params_unknown_parameter:
  assumes "map_of available_metrics metric = Some param_list"
    and "declared_checks_pass metric_params param_list"
  shows "is_ValueError (validate_metric_params metric metric_params)
           = has_unrecognized_key metric_params \<and>
         validate_metric_params metric metric_params =
           (if has_unrecognized_key metric_params
            then Inl (ValueError ''{} in param_metric is not an available parameter. Available metric_params. are {}'')
            else Inr ())"
  using assms
  by (simp add: validate_metric_params_def check_declared_pass check_available_result
      has_unrecognized_key_def)

theorem validate_metric_params_unknown_parameter_witness:
  "declared_checks_pass [(''bogus_param'', VInt 1)]
     [(''order'', TNumber, VInt 1, VFloat PInf), (''n_values'', TInt, VInt 1, VFloat PInf),
      (''sigma'', TNumber, VFloat (Fin 0), VFloat PInf)] \<and>
   ''bogus_param'' \<notin> recognized_names \<and>
   is_ValueError (validate_metric_params ''heat'' [(''bogus_param'', VInt 1)]) \<and>
   \<not> has_unrecognized_key [(''n_layers'', VInt 3)] \<and>
   validate_metric_params ''heat'' [(''n_layers'', VInt 3)] = Inr ()"
proof -
  have m: "map_of available_metrics ''heat'' =
      Some [(''order'', TNumber, VInt 1, VFloat PInf), (''n_values'', TInt, VInt 1, VFloat PInf),
            (''sigma'', TNumber, VFloat (Fin 0), VFloat PInf)]"
    by (simp add: available_metrics_def)
  have d: "declared_checks_pass [(''bogus_param'', VInt 1)]
     [(''order'', TNumber, VInt 1, VFloat PInf), (''n_values'', TInt, VInt 1, VFloat PInf),
      (''sigma'', TNumber, VFloat (Fin 0), VFloat PInf)]"
    by (simp add: declared_checks_pass_def)
  have n: "''bogus_param'' \<notin> recognized_names"
    unfolding set_available_metric_params [symmetric]
    by (simp add: available_metric_params_def available_metrics_def)
  then have u: "has_unrecognized_key [(''bogus_param'', VInt 1)]"
    by (simp add: has_unrecognized_key_def dict_keys_def)
  have d': "declared_checks_pass [(''n_layers'', VInt 3)]
     [(''order'', TNumber, VInt 1, VFloat PInf), (''n_values'', TInt, VInt 1, VFloat PInf),
      (''sigma'', TNumber, VFloat (Fin 0), VFloat PInf)]"
    by (simp add: declared_checks_pass_def)
  have u': "\<not> has_unrecognized_key [(''n_layers'', VInt 3)]"
    unfolding has_unrecognized_key_def set_available_metric_params [symmetric]
    by (simp add: dict_keys_def available_metric_params_def available_metrics_def)
  from validate_metric_params_unknown_parameter [OF m d]
    validate_metric_params_unknown_parameter [OF m d'] d n u u'
  show ?thesis by simp
qed

text \<open>
  C3 (amended): for a metric of the registry, when every declared parameter that is supplied has
  a value of the declared type which is not NaN, \<open>validate_metric_params\<close> raises the range
  ValueError if and only if one of these values is outside the inclusive range \<open>[min, max]\<close> of
  its declaration, and the loop over the declarations raises nothing else; declared parameters
  that are not supplied are skipped. \<open>validate_metric_params("wasserstein", {"p": 2,
  "delta": 0.5})\<close> returns, \<open>validate_metric_params("wasserstein", {"p": 0})\<close> fails with
  ValueError.
\<close>

theorem validate_metric_params_range:
  assumes "map_of available_metrics metric = Some param_list"
    and "supplied_of_declared_type metric_params param_list"
  shows "(validate_metric_params metric metric_params =
            Inl (ValueError ''{} in param_metric should be between {} and {} but has been set to {}.''))
           = supplied_out_of_range metric_params param_list \<and>
         check_declared metric_params param_list =
           (if supplied_out_of_range metric_params param_list
            then Inl (ValueError ''{} in param_metric should be between {} and {} but has been set to {}.'')
            else Inr ()) \<and>
         (\<forall>param t lo hi. map_of metric_params param = None \<longrightarrow>
            check_declared_param metric_params (param, t, lo, hi) = Inr ())"
  using assms check_declared_result [OF registry_lists [OF assms(1)] assms(2)]
  by (simp add: validate_metric_params_def check_available_result check_declared_param_absent)

theorem validate_metric_params_range_witness:
  "validate_metric_params ''wasserstein'' [(''p'', VInt 2), (''delta'', VFloat (Fin (1 / 2)))] = Inr () \<and>
   \<not> supplied_out_of_range [(''p'', VInt 2), (''delta'', VFloat (Fin (1 / 2)))]
       [(''p'', TInt, VInt 1, VFloat PInf),
        (''delta'', TNumber, VFloat (Fin (2028240960365167 / 2 ^ 104)), VFloat (Fin 1))] \<and>
   \<not> within_range (VInt 0) (VInt 1) (VFloat PInf) \<and>
   validate_metric_params ''wasserstein'' [(''p'', VInt 0)] =
     Inl (ValueError ''{} in param_metric should be between {} and {} but has been set to {}.'')"
proof -
  let ?ds = "[(''p'', TInt, VInt 1, VFloat PInf),
        (''delta'', TNumber, VFloat (Fin (2028240960365167 / 2 ^ 104)), VFloat (Fin 1))]"
  have m: "map_of available_metrics ''wasserstein'' = Some ?ds"
    by (simp add: available_metrics_def)
  have t: "supplied_of_declared_type [(''p'', VInt 2), (''delta'', VFloat (Fin (1 / 2)))] ?ds"
    "supplied_of_declared_type [(''p'', VInt 0)] ?ds"
    by (simp_all add: supplied_of_declared_type_def isinstance_of_def issubclass_def)
  have r: "\<not> supplied_out_of_range [(''p'', VInt 2), (''delta'', VFloat (Fin (1 / 2)))] ?ds"
    "supplied_out_of_range [(''p'', VInt 0)] ?ds"
    "\<not> within_range (VInt 0) (VInt 1) (VFloat PInf)"
    by (simp_all add: supplied_out_of_range_def within_range_def fle_def)
  have a: "check_available (dict_keys [(''p'', VInt 2), (''delta'', VFloat (Fin (1 / 2)))]) = Inr ()"
    by (simp add: dict_keys_def available_metric_params_def available_metrics_def)
  from validate_metric_params_range [OF m t(1)] validate_metric_params_range [OF m t(2)] r a m
  show ?thesis by (simp add: validate_metric_params_def)
qed

text \<open>
  C3 as stated fails on NaN: it is a number, it is not in \<open>[0, 1]\<close>, and both comparisons of
  the range check are false, so nothing is raised.
\<close>

theorem validate_metric_params_nan:
  "map_of available_metrics ''bottleneck'' = Some [(''delta'', TNumber, VFloat (Fin 0), VFloat (Fin 1))] \<and>
   isinstance_of (VFloat NaN) TNumber \<and>
   \<not> within_range (VFloat NaN) (VFloat (Fin 0)) (VFloat (Fin 1)) \<and>
   validate_metric_params ''bottleneck'' [(''delta'', VFloat NaN)] = Inr ()"
  by (simp add: available_metrics_def isinstance_of_def issubclass_def within_range_def fle_def
      validate_metric_params_def check_declared_param_def py_gt_def dict_keys_def
      available_metric_params_def)

subsection \<open>validate_params: the end of the loop and missing keys\<close>

lemma lookup_in_dict:
  assumes "valid_dict (before @ (key, decl) # later)"
  shows "py_lookup (before @ (key, decl) # later) key = Inr decl"
proof -
  from assms have "map_of (before @ (key, decl) # later) key = Some decl"
    by (simp add: valid_dict_def map_of_eq_Some_iff del: map_append map_of_append)
  then show ?thesis by (simp add: py_lookup_def)
qed

lemma validate_loop_continue:
  "\<forall>k\<in>set ks. check_key parameters references k = Inr Continue \<Longrightarrow>
   validate_loop parameters references (ks @ rest) = validate_loop parameters references rest"
  by (induction ks) auto

lemma validate_loop_quiet_prefix:
  "\<forall>k\<in>set ks. \<not> raises (check_key parameters references k) \<Longrightarrow>
   validate_loop parameters references (ks @ rest) = Inr () \<or>
   validate_loop parameters references (ks @ rest) = validate_loop parameters references rest"
proof (induction ks)
  case Nil
  then show ?case by simp
next
  case (Cons k ks)
  then show ?case
  proof (cases "check_key parameters references k")
    case (Inl e)
    with Cons.prems show ?thesis by simp
  next
    case (Inr f)
    with Cons show ?thesis by (cases f) auto
  qed
qed

lemma check_key_absent:
  "map_of parameters key = None \<Longrightarrow> check_key parameters references key = Inl (KeyError key)"
  by (simp add: check_key_def py_lookup_def)

lemma check_key_list_breaks:
  assumes "py_lookup references key = Inr decl"
    and "py_getitem decl 0 = Inr (VType TList)"
    and "py_len decl \<noteq> Inr 1"
    and "\<not> raises (check_key parameters references key)"
  shows "check_key parameters references key = Inr Break"
proof (cases "py_lookup parameters key")
  case (Inl e)
  with assms(4) show ?thesis by (simp add: check_key_def)
next
  case v: (Inr v)
  show ?thesis
  proof (cases "isinstance_of v TList")
    case False
    with assms v show ?thesis by (simp add: check_key_def)
  next
    case inst: True
    show ?thesis
    proof (cases "py_len decl")
      case (Inl e)
      with assms v inst show ?thesis by (simp add: check_key_def)
    next
      case n: (Inr n)
      with assms(3) have n1: "n \<noteq> 1" by simp
      have r: "check_key parameters references key =
               ebind (py_iter v) (\<lambda>elements.
               ebind (check_elements decl elements) (\<lambda>u. Inr Break))"
        using assms(1,2) v inst n n1 by (simp add: check_key_def)
      show ?thesis
      proof (cases "py_iter v")
        case (Inl e)
        with r assms(4) show ?thesis by simp
      next
        case xs: (Inr xs)
        show ?thesis
        proof (cases "check_elements decl xs")
          case (Inl e)
          with r xs assms(4) show ?thesis by simp
        next
          case (Inr u)
          with r xs show ?thesis by simp
        qed
      qed
    qed
  qed
qed

text \<open>
  C1 (amended): once a key of \<open>references\<close> whose declared expected type is the list type and
  whose declaration has more than the type (its length is not 1) has been processed without
  raising, no key before it having raised, the loop ends: \<open>validate_params\<close> returns normally
  whatever the later keys and their values are.
\<close>

theorem validate_params_list_key_ends_loop:
  assumes "valid_dict references"
    and "references = before @ (key, decl) # later"
    and "\<forall>k\<in>set (dict_keys before). \<not> raises (check_key parameters references k)"
    and "py_getitem decl 0 = Inr (VType TList)"
    and "py_len decl \<noteq> Inr 1"
    and "\<not> raises (check_key parameters references key)"
  shows "check_key parameters references key = Inr Break \<and>
         validate_params parameters references = Inr ()"
proof -
  have l: "py_lookup references key = Inr decl"
    using assms(1) unfolding assms(2) by (rule lookup_in_dict)
  have b: "check_key parameters references key = Inr Break"
    using l assms(4,5,6) by (rule check_key_list_breaks)
  have k: "dict_keys references = dict_keys before @ key # dict_keys later"
    by (simp add: assms(2) dict_keys_def)
  have "validate_loop parameters references (key # dict_keys later) = Inr ()"
    using b by simp
  with validate_loop_quiet_prefix [OF assms(3), of "key # dict_keys later"]
  have "validate_params parameters references = Inr ()"
    by (auto simp: validate_params_def k)
  with b show ?thesis by simp
qed

theorem validate_params_list_key_ends_loop_witness:
  "valid_dict references_list \<and>
   py_getitem (VList [VType TList, VList [VType TInt]]) 0 = Inr (VType TList) \<and>
   py_len (VList [VType TList, VList [VType TInt]]) \<noteq> Inr 1 \<and>
   \<not> raises (check_key parameters_bad_b references_list ''a'') \<and>
   raises (check_key parameters_bad_b references_list ''b'') \<and>
   validate_params parameters_bad_b references_list = Inr ()"
proof -
  have h: "valid_dict references_list"
    "references_list = [] @ (''a'', VList [VType TList, VList [VType TInt]]) # [(''b'', VList [VType TInt])]"
    "\<forall>k\<in>set (dict_keys []). \<not> raises (check_key parameters_bad_b references_list k)"
    "py_getitem (VList [VType TList, VList [VType TInt]]) 0 = Inr (VType TList)"
    "py_len (VList [VType TList, VList [VType TInt]]) \<noteq> Inr 1"
    by (simp_all add: references_list_def valid_dict_def dict_keys_def)
  have c: "\<not> raises (check_key parameters_bad_b references_list ''a'')"
    "raises (check_key parameters_bad_b references_list ''b'')"
    by (simp_all add: check_key_def py_lookup_def parameters_bad_b_def references_list_def
        check_element_def isinstance_of_def issubclass_def)
  from validate_params_list_key_ends_loop [OF h c(1)] h c show ?thesis by simp
qed

text \<open>
  C1 as stated fails for a declaration that is the list type alone: the length-1 test comes
  first and continues the loop, so the next key is checked and raises.
\<close>

theorem validate_params_bare_list_continues:
  "valid_dict references_bare_list \<and>
   py_lookup references_bare_list ''a'' = Inr (VList [VType TList]) \<and>
   py_getitem (VList [VType TList]) 0 = Inr (VType TList) \<and>
   check_key parameters_bad_b references_bare_list ''a'' = Inr Continue \<and>
   validate_params parameters_bad_b references_bare_list =
     Inl (TypeError ''Parameter {} is of type {} while it should be of type {}'')"
  by (simp add: references_bare_list_def parameters_bad_b_def valid_dict_def dict_keys_def
      validate_params_def check_key_def py_lookup_def isinstance_of_def issubclass_def)

text \<open>
  C10 (amended): when the loop reaches a key of \<open>references\<close> that is absent from
  \<open>parameters\<close> (every earlier key has been processed without raising and without ending the
  loop), \<open>validate_params\<close> fails with KeyError, whatever the declaration of that key is: the
  lookup comes before the type check.
\<close>

theorem validate_params_missing_key:
  assumes "references = before @ (key, decl) # later"
    and "\<forall>k\<in>set (dict_keys before). check_key parameters references k = Inr Continue"
    and "map_of parameters key = None"
  shows "validate_params parameters references = Inl (KeyError key)"
proof -
  have k: "dict_keys references = dict_keys before @ key # dict_keys later"
    by (simp add: assms(1) dict_keys_def)
  have "validate_loop parameters references (key # dict_keys later) = Inl (KeyError key)"
    using check_key_absent [OF assms(3)] by simp
  with validate_loop_continue [OF assms(2), of "key # dict_keys later"]
  show ?thesis by (simp add: validate_params_def k)
qed

theorem validate_params_missing_key_witness:
  "check_key parameters_int_a references_scalars ''a'' = Inr Continue \<and>
   map_of parameters_int_a ''b'' = None \<and>
   validate_params parameters_int_a references_scalars = Inl (KeyError ''b'') \<and>
   map_of [] ''a'' = (None :: pyval option) \<and>
   validate_params [] references_scalars = Inl (KeyError ''a'')"
proof -
  have r: "references_scalars =
      [(''a'', VList [VType TInt, VTuple [VInt 0, VFloat PInf]])] @ (''b'', VList [VType TInt]) # []"
    "references_scalars =
      [] @ (''a'', VList [VType TInt, VTuple [VInt 0, VFloat PInf]]) # [(''b'', VList [VType TInt])]"
    by (simp_all add: references_scalars_def)
  have c: "check_key parameters_int_a references_scalars ''a'' = Inr Continue"
    by (simp add: check_key_def py_lookup_def parameters_int_a_def references_scalars_def
        check_range_def py_gt_def isinstance_of_def issubclass_def)
  then have p: "\<forall>k\<in>set (dict_keys [(''a'', VList [VType TInt, VTuple [VInt 0, VFloat PInf]])]).
      check_key parameters_int_a references_scalars k = Inr Continue"
    by (simp add: dict_keys_def)
  have q: "\<forall>k\<in>set (dict_keys []). check_key [] references_scalars k = Inr Continue"
    by (simp add: dict_keys_def)
  have n: "map_of parameters_int_a ''b'' = None" "map_of [] ''a'' = (None :: pyval option)"
    by (simp_all add: parameters_int_a_def)
  from validate_params_missing_key [OF r(1) p n(1)] validate_params_missing_key [OF r(2) q n(2)] c n
  show ?thesis by simp
qed

text \<open>
  C10 as stated fails when an earlier key ends the loop: the key \<open>b\<close> of \<open>references\<close> is
  absent from \<open>parameters\<close>, and \<open>validate_params\<close> returns normally.
\<close>

theorem validate_params_missing_key_not_reached:
  "valid_dict references_list \<and> ''b'' \<in> set (dict_keys references_list) \<and>
   map_of parameters_no_b ''b'' = None \<and>
   validate_params parameters_no_b references_list = Inr () \<and>
   \<not> is_KeyError (validate_params parameters_no_b references_list)"
  by (simp add: references_list_def parameters_no_b_def valid_dict_def dict_keys_def
      validate_params_def check_key_def py_lookup_def check_element_def
      isinstance_of_def issubclass_def)

end
